theory Spec2Isabelle
  imports Complex_Main "HOL-Library.Multiset" "HOL-Library.Product_Lexorder"
begin

section \<open>Calendar dates\<close>

text \<open>
  The program stores every transaction date as a \<^verbatim>\<open>datetime.date\<close>: a year, a month and
  a day.  Python compares two dates as the triples (year, month, day), which is the
  lexicographic order of \<^theory_text>\<open>Product_Lexorder\<close>.  The arithmetic the program asks of the
  library is modelled by its meaning on the proleptic Gregorian calendar:
  \<^verbatim>\<open>d + timedelta(days=n)\<close> is the date n days after d, \<^verbatim>\<open>(a - b).days\<close> is the
  difference of the two day numbers (\<^verbatim>\<open>date.toordinal\<close>), and
  \<^verbatim>\<open>pd.date_range(a, b, freq='D')\<close> lists the days from a to b.  The current date,
  \<^verbatim>\<open>datetime.now().date()\<close>, is an argument \<open>today\<close> of every function that reads it.
  The calendar is not cut
  off at year 9999: the \<^verbatim>\<open>OverflowError\<close> of the library beyond \<^verbatim>\<open>date.max\<close> and the
  narrower range of pandas timestamps are outside the model.
\<close>

type_synonym date = "nat \<times> nat \<times> nat"

definition is_leap :: "nat \<Rightarrow> bool" where
  "is_leap y \<longleftrightarrow> y mod 4 = 0 \<and> (y mod 100 \<noteq> 0 \<or> y mod 400 = 0)"

definition days_in_month :: "nat \<Rightarrow> nat \<Rightarrow> nat" where
  "days_in_month y m =
     (if m = 2 then (if is_leap y then 29 else 28)
      else if m = 4 \<or> m = 6 \<or> m = 9 \<or> m = 11 then 30
      else 31)"

definition days_before_year :: "nat \<Rightarrow> int" where
  "days_before_year y =
     (let z = int y - 1 in z * 365 + z div 4 - z div 100 + z div 400)"

definition days_before_month :: "nat \<Rightarrow> nat \<Rightarrow> int" where
  "days_before_month y m =
     int ([0, 31, 59, 90, 120, 151, 181, 212, 243, 273, 304, 334] ! (m - 1))
     + (if 2 < m \<and> is_leap y then 1 else 0)"

fun toordinal :: "date \<Rightarrow> int" where
  "toordinal (y, m, d) = days_before_year y + days_before_month y m + int d"

fun valid_date :: "date \<Rightarrow> bool" where
  "valid_date (y, m, d) \<longleftrightarrow>
     1 \<le> y \<and> 1 \<le> m \<and> m \<le> 12 \<and> 1 \<le> d \<and> d \<le> days_in_month y m"

text \<open>The dates a \<^verbatim>\<open>datetime.date\<close> object can hold: \<^verbatim>\<open>MAXYEAR\<close> is 9999.\<close>

definition py_date :: "date \<Rightarrow> bool" where
  "py_date dt \<longleftrightarrow> valid_date dt \<and> fst dt \<le> 9999"

fun next_day :: "date \<Rightarrow> date" where
  "next_day (y, m, d) =
     (if d < days_in_month y m then (y, m, d + 1)
      else if m < 12 then (y, m + 1, 1)
      else (y + 1, 1, 1))"

fun prev_day :: "date \<Rightarrow> date" where
  "prev_day (y, m, d) =
     (if 1 < d then (y, m, d - 1)
      else if 1 < m then (y, m - 1, days_in_month y (m - 1))
      else (y - 1, 12, 31))"

text \<open>\<^verbatim>\<open>d + timedelta(days=n)\<close>\<close>

definition add_days :: "date \<Rightarrow> int \<Rightarrow> date" where
  "add_days dt n = (if 0 \<le> n then (next_day ^^ nat n) dt else (prev_day ^^ nat (- n)) dt)"

text \<open>\<^verbatim>\<open>(a - b).days\<close>\<close>

definition days_between :: "date \<Rightarrow> date \<Rightarrow> int" where
  "days_between a b = toordinal a - toordinal b"

text \<open>\<^verbatim>\<open>[ts.date() for ts in pd.date_range(a, b, freq='D')]\<close>: empty when b is before a.\<close>

definition date_range :: "date \<Rightarrow> date \<Rightarrow> date list" where
  "date_range a b = map (\<lambda>k. add_days a (int k)) [0 ..< nat (days_between b a + 1)]"

subsection \<open>Dates as text\<close>

text \<open>
  \<^verbatim>\<open>json.dump(..., default=str)\<close> writes a date as \<^verbatim>\<open>str(d)\<close>, which is
  \<^verbatim>\<open>"%04d-%02d-%02d" % (year, month, day)\<close>.
\<close>

definition digit_char :: "nat \<Rightarrow> char" where
  "digit_char n = char_of (48 + n)"

fun digits :: "nat \<Rightarrow> string" where
  "digits n = (if n < 10 then [digit_char n] else digits (n div 10) @ [digit_char (n mod 10)])"

declare digits.simps [simp del]

definition zero_pad :: "nat \<Rightarrow> nat \<Rightarrow> string" where
  "zero_pad w n = replicate (w - length (digits n)) (CHR ''0'') @ digits n"

fun isoformat :: "date \<Rightarrow> string" where
  "isoformat (y, m, d) = zero_pad 4 y @ ''-'' @ zero_pad 2 m @ ''-'' @ zero_pad 2 d"

text \<open>
  \<^verbatim>\<open>datetime.strptime(s, '%Y-%m-%d').date()\<close>.  The library matches s against the
  regular expression
  \<^verbatim>\<open>(?P<Y>\d\d\d\d)-(?P<m>1[0-2]|0[1-9]|[1-9])-(?P<d>3[0-1]|[1-2]\d|0[1-9]|[1-9]| [1-9])\<close>,
  raises \<^verbatim>\<open>ValueError\<close> when it does not match or when text remains after the match, and
  raises \<^verbatim>\<open>ValueError\<close> again when the three numbers are not a date.  An alternative that
  matches two characters is never followed by \<^verbatim>\<open>-\<close> or the end of the text where a later
  one would be, so taking the first alternative that matches is the whole search.
  \<^theory_text>\<open>None\<close> is the \<^verbatim>\<open>ValueError\<close>.
\<close>

definition is_digit :: "char \<Rightarrow> bool" where
  "is_digit c \<longleftrightarrow> 48 \<le> (of_char c :: nat) \<and> (of_char c :: nat) \<le> 57"

definition digit_val :: "char \<Rightarrow> nat" where
  "digit_val c = of_char c - 48"

definition in_range :: "char \<Rightarrow> nat \<Rightarrow> nat \<Rightarrow> bool" where
  "in_range c lo hi \<longleftrightarrow> is_digit c \<and> lo \<le> digit_val c \<and> digit_val c \<le> hi"

fun parse_year :: "string \<Rightarrow> (nat \<times> string) option" where
  "parse_year (a # b # c # d # rest) =
     (if is_digit a \<and> is_digit b \<and> is_digit c \<and> is_digit d
      then Some (1000 * digit_val a + 100 * digit_val b + 10 * digit_val c + digit_val d, rest)
      else None)"
| "parse_year _ = None"

fun parse_month :: "string \<Rightarrow> (nat \<times> string) option" where
  "parse_month (a # b # rest) =
     (if a = CHR ''1'' \<and> in_range b 0 2 then Some (10 + digit_val b, rest)
      else if a = CHR ''0'' \<and> in_range b 1 9 then Some (digit_val b, rest)
      else if in_range a 1 9 then Some (digit_val a, b # rest)
      else None)"
| "parse_month [a] = (if in_range a 1 9 then Some (digit_val a, []) else None)"
| "parse_month [] = None"

fun parse_day :: "string \<Rightarrow> (nat \<times> string) option" where
  "parse_day (a # b # rest) =
     (if a = CHR ''3'' \<and> in_range b 0 1 then Some (30 + digit_val b, rest)
      else if in_range a 1 2 \<and> is_digit b then Some (10 * digit_val a + digit_val b, rest)
      else if a = CHR ''0'' \<and> in_range b 1 9 then Some (digit_val b, rest)
      else if in_range a 1 9 then Some (digit_val a, b # rest)
      else if a = CHR '' '' \<and> in_range b 1 9 then Some (digit_val b, rest)
      else None)"
| "parse_day [a] = (if in_range a 1 9 then Some (digit_val a, []) else None)"
| "parse_day [] = None"

fun expect_dash :: "string \<Rightarrow> string option" where
  "expect_dash (c # rest) = (if c = CHR ''-'' then Some rest else None)"
| "expect_dash [] = None"

definition strptime :: "string \<Rightarrow> date option" where
  "strptime s =
     (case parse_year s of None \<Rightarrow> None
      | Some (y, s1) \<Rightarrow>
     (case expect_dash s1 of None \<Rightarrow> None
      | Some s2 \<Rightarrow>
     (case parse_month s2 of None \<Rightarrow> None
      | Some (m, s3) \<Rightarrow>
     (case expect_dash s3 of None \<Rightarrow> None
      | Some s4 \<Rightarrow>
     (case parse_day s4 of None \<Rightarrow> None
      | Some (d, s5) \<Rightarrow>
         if s5 = [] \<and> valid_date (y, m, d) then Some (y, m, d) else None)))))"

section \<open>Data model\<close>

text \<open>
  A row of the transactions table.  In memory the date is a \<^typ>\<open>date\<close>; in
  \<^verbatim>\<open>cashflow_data.json\<close> it is text, so the row type is parametrised by the date's
  representation.  Type and status are the strings the program compares
  (\<^verbatim>\<open>'income'\<close>, \<^verbatim>\<open>'expense'\<close>, \<^verbatim>\<open>'pending'\<close>, ...).  Amounts and balances are exact
  rationals: the rounding of Python floats is not modelled.
\<close>

record 'd transaction =
  tx_id :: int
  tx_type :: string
  amount :: rat
  date :: 'd
  description :: string
  status :: string
  probability :: int

record projection_point =
  p_date :: date
  balance :: rat
  daily_income :: rat
  daily_expenses :: rat
  net_flow :: rat

record health_metrics =
  health_score :: int
  days_until_danger :: "int option"
  monthly_runway :: "rat option"
  trend_direction :: rat
  min_balance :: "rat option"
  m_current_balance :: rat

text \<open>
  \<^verbatim>\<open>st.session_state\<close>: the table, the balance and the id counter; and the contents of
  \<^verbatim>\<open>cashflow_data.json\<close>.
\<close>

record session =
  transactions_df :: "date transaction list"
  current_balance :: rat
  next_id :: int

record json_data =
  j_transactions :: "string transaction list"
  j_current_balance :: rat
  j_next_id :: int

text \<open>
  The world the store operations act on.  \<^theory_text>\<open>cashflow_file = None\<close> is a file that does
  not exist or does not hold JSON.  Writing the file is assumed to succeed.
\<close>

record world =
  session_state :: session
  cashflow_file :: "json_data option"


section \<open>Scenario engine (\<^verbatim>\<open>apply_scenarios\<close>, app.py)\<close>

text \<open>
  \<^verbatim>\<open>mask = (df['type'] == 'income') & (df['status'] == 'pending')\<close> and
  \<^verbatim>\<open>df.loc[mask, 'date'] = df.loc[mask, 'date'] + timedelta(days=delay_days)\<close>, row by row.
\<close>

definition delay_row :: "int \<Rightarrow> date transaction \<Rightarrow> date transaction" where
  "delay_row delay_days t =
     (if tx_type t = ''income'' \<and> status t = ''pending''
      then t\<lparr>date := add_days (date t) delay_days\<rparr>
      else t)"

definition new_expense :: "rat \<Rightarrow> date \<Rightarrow> date transaction" where
  "new_expense what_if_expense today =
     \<lparr>tx_id = 9999, tx_type = ''expense'', amount = what_if_expense,
      date = add_days today 3, description = ''What-If Expense'',
      status = ''projected'', probability = 100\<rparr>"

text \<open>
  \<^verbatim>\<open>today\<close> is \<^verbatim>\<open>datetime.now().date()\<close>, an input of the model.  The function works on
  \<^verbatim>\<open>df.copy()\<close>, so the caller's table is not changed; it reads and writes neither
  \<^verbatim>\<open>st.session_state\<close> nor the file.  \<^verbatim>\<open>sort_values('date')\<close> is modelled by the stable
  \<^const>\<open>sort_key\<close>; pandas does not promise the order of rows of the same date.
\<close>

definition apply_scenarios ::
  "date transaction list \<Rightarrow> string \<Rightarrow> int \<Rightarrow> rat \<Rightarrow> date \<Rightarrow> date transaction list" where
  "apply_scenarios df scenario_type delay_days what_if_expense today =
     (if df = [] then df
      else
        let df_scenario =
              (if scenario_type = ''Payment Delays'' then map (delay_row delay_days) df else df);
            df_scenario =
              (if 0 < what_if_expense
               then df_scenario @ [new_expense what_if_expense today]
               else df_scenario)
        in sort_key date df_scenario)"

section \<open>Projection calculator (\<^verbatim>\<open>calculate_cash_flow_projection\<close>, app.py)\<close>

definition today_point :: "date \<Rightarrow> rat \<Rightarrow> projection_point" where
  "today_point today starting_balance =
     \<lparr>p_date = today, balance = starting_balance,
      daily_income = 0, daily_expenses = 0, net_flow = 0\<rparr>"

definition day_income :: "date transaction list \<Rightarrow> date \<Rightarrow> rat" where
  "day_income df dt =
     sum_list (map amount (filter (\<lambda>t. tx_type t = ''income'') (filter (\<lambda>t. date t = dt) df)))"

definition day_expenses :: "date transaction list \<Rightarrow> date \<Rightarrow> rat" where
  "day_expenses df dt =
     sum_list (map amount (filter (\<lambda>t. tx_type t = ''expense'') (filter (\<lambda>t. date t = dt) df)))"

text \<open>The loop over the days, with the running \<^verbatim>\<open>current_balance\<close> as its state.\<close>

fun daily_flows :: "date transaction list \<Rightarrow> date list \<Rightarrow> rat \<Rightarrow> projection_point list" where
  "daily_flows df [] cur = []"
| "daily_flows df (dt # dts) cur =
     (let inc = day_income df dt;
          exps = day_expenses df dt;
          nf = inc - exps;
          cur' = cur + nf
      in \<lparr>p_date = dt, balance = cur', daily_income = inc, daily_expenses = exps, net_flow = nf\<rparr>
         # daily_flows df dts cur')"

text \<open>
  Every row of the model has a date, so \<^verbatim>\<open>df['date'].min()\<close> and \<^verbatim>\<open>.max()\<close> of a table
  that is not empty are dates and the \<^verbatim>\<open>pd.isna\<close> branch of the source is not taken.
\<close>

definition min_date :: "date transaction list \<Rightarrow> date" where
  "min_date df = fold min (map date (tl df)) (date (hd df))"

definition max_date :: "date transaction list \<Rightarrow> date" where
  "max_date df = fold max (map date (tl df)) (date (hd df))"

definition calculate_cash_flow_projection ::
  "date transaction list \<Rightarrow> rat \<Rightarrow> date \<Rightarrow> projection_point list" where
  "calculate_cash_flow_projection df starting_balance today =
     (if df = [] then [today_point today starting_balance]
      else today_point today starting_balance
           # daily_flows df (date_range (min_date df) (max_date df)) starting_balance)"

section \<open>Health scorer (\<^verbatim>\<open>calculate_health_metrics\<close>, app.py)\<close>

definition score_of :: "int option \<Rightarrow> int" where
  "score_of dud =
     (case dud of
        None \<Rightarrow> 100
      | Some d \<Rightarrow>
          if d < 30 then max 0 (d * 2)
          else if d < 60 then 60 + (d - 30)
          else 90)"

definition trend_of :: "projection_point list \<Rightarrow> rat" where
  "trend_of projection_df =
     (if 1 < length projection_df
      then (let recent_balances = map balance (drop (length projection_df - 5) projection_df)
            in if 1 < length recent_balances
               then last recent_balances - hd recent_balances else 0)
      else 0)"

text \<open>
  \<^verbatim>\<open>monthly_runway\<close>: \<^theory_text>\<open>None\<close> is \<^verbatim>\<open>float('inf')\<close>.  The last step of the source,
  \<^verbatim>\<open>round(monthly_runway, 1)\<close>, rounds a float to one decimal and is not modelled: the
  field holds the quotient itself.
\<close>

definition runway_of :: "projection_point list \<Rightarrow> rat \<Rightarrow> rat option" where
  "runway_of projection_df cur_balance =
     (if 1 < length projection_df
      then (let monthly_expenses =
                  sum_list (map daily_expenses projection_df) / of_nat (length projection_df) * 30
            in if 0 < monthly_expenses then Some (cur_balance / monthly_expenses) else None)
      else None)"

text \<open>
  \<^verbatim>\<open>today\<close> is \<^verbatim>\<open>datetime.now().date()\<close>.  \<^verbatim>\<open>round(health_score)\<close> of an integer is that
  integer.  \<^verbatim>\<open>min()\<close> of an empty column is \<^verbatim>\<open>NaN\<close>, here \<^theory_text>\<open>None\<close>.
\<close>

definition calculate_health_metrics ::
  "projection_point list \<Rightarrow> rat \<Rightarrow> date \<Rightarrow> health_metrics" where
  "calculate_health_metrics projection_df cur_balance today =
     (let negative_days = filter (\<lambda>p. balance p < 0) projection_df;
          dud = (case negative_days of
                   [] \<Rightarrow> None
                 | p # _ \<Rightarrow> Some (days_between (p_date p) today))
      in \<lparr>health_score = score_of dud,
          days_until_danger = dud,
          monthly_runway = runway_of projection_df cur_balance,
          trend_direction = trend_of projection_df,
          min_balance = (case projection_df of
                           [] \<Rightarrow> None
                         | p # ps \<Rightarrow> Some (fold min (map balance ps) (balance p))),
          m_current_balance = cur_balance\<rparr>)"

section \<open>Transaction store (app.py)\<close>

fun tx_to_json :: "date transaction \<Rightarrow> string transaction" where
  "tx_to_json t =
     \<lparr>tx_id = tx_id t, tx_type = tx_type t, amount = amount t, date = isoformat (date t),
      description = description t, status = status t, probability = probability t\<rparr>"

definition save_data :: "world \<Rightarrow> world" where
  "save_data w =
     w\<lparr>cashflow_file :=
         Some \<lparr>j_transactions = map tx_to_json (transactions_df (session_state w)),
               j_current_balance = current_balance (session_state w),
               j_next_id = next_id (session_state w)\<rparr>\<rparr>"

text \<open>
  \<^verbatim>\<open>load_data\<close>: the rows are converted in order and the first \<^verbatim>\<open>ValueError\<close> of
  \<^verbatim>\<open>strptime\<close> ends the conversion; the \<^verbatim>\<open>except\<close> clause then shows the error and the
  function returns the empty default.
\<close>

fun tx_of_json :: "string transaction \<Rightarrow> date transaction option" where
  "tx_of_json t =
     (case strptime (date t) of
        None \<Rightarrow> None
      | Some dt \<Rightarrow>
          Some \<lparr>tx_id = tx_id t, tx_type = tx_type t, amount = amount t, date = dt,
                description = description t, status = status t, probability = probability t\<rparr>)"

fun convert_dates :: "string transaction list \<Rightarrow> date transaction list option" where
  "convert_dates [] = Some []"
| "convert_dates (t # ts) =
     (case tx_of_json t of
        None \<Rightarrow> None
      | Some t' \<Rightarrow> (case convert_dates ts of None \<Rightarrow> None | Some ts' \<Rightarrow> Some (t' # ts')))"

definition default_session :: session where
  "default_session = \<lparr>transactions_df = [], current_balance = 0, next_id = 1\<rparr>"

definition load_data :: "json_data option \<Rightarrow> session" where
  "load_data file =
     (case file of
        None \<Rightarrow> default_session
      | Some data \<Rightarrow>
          (case convert_dates (j_transactions data) of
             None \<Rightarrow> default_session
           | Some txs \<Rightarrow>
               \<lparr>transactions_df = txs, current_balance = j_current_balance data,
                next_id = j_next_id data\<rparr>))"

definition add_transaction ::
  "string \<Rightarrow> rat \<Rightarrow> date \<Rightarrow> string \<Rightarrow> string \<Rightarrow> int \<Rightarrow> world \<Rightarrow> world" where
  "add_transaction trans_type amt dt descr stat prob w =
     (let s = session_state w;
          new_transaction =
            \<lparr>tx_id = next_id s, tx_type = trans_type, amount = amt, date = dt,
             description = descr, status = stat, probability = prob\<rparr>
      in save_data
           (w\<lparr>session_state :=
                s\<lparr>transactions_df := transactions_df s @ [new_transaction],
                  next_id := next_id s + 1\<rparr>\<rparr>))"




text \<open>
  The scenario run of \<^verbatim>\<open>main\<close>: the three calls on the session's table and balance.
  None of them assigns to \<^verbatim>\<open>st.session_state\<close> or calls \<^verbatim>\<open>save_data\<close>, so the world is
  returned as it was.
\<close>

definition run_scenario ::
  "string \<Rightarrow> int \<Rightarrow> rat \<Rightarrow> date \<Rightarrow> world
     \<Rightarrow> (date transaction list \<times> projection_point list \<times> health_metrics) \<times> world" where
  "run_scenario scenario_type delay_days what_if_expense today w =
     (let s = session_state w;
          df_scenario =
            apply_scenarios (transactions_df s) scenario_type delay_days what_if_expense today;
          projection_df = calculate_cash_flow_projection df_scenario (current_balance s) today;
          metrics = calculate_health_metrics projection_df (current_balance s) today
      in ((df_scenario, projection_df, metrics), w))"

section \<open>Ingestion of an extracted batch (\<^verbatim>\<open>save_to_cashflow_data\<close>, bank_ai.py)\<close>

text \<open>
  The extractor's answer is a JSON object.  A field of a row is \<^theory_text>\<open>None\<close> when the key
  is missing (\<^verbatim>\<open>KeyError\<close>) or, for the amount, when \<^verbatim>\<open>float\<close> rejects the value.
  \<^verbatim>\<open>current_balance\<close> has three cases: the key is absent, \<^verbatim>\<open>float\<close> rejects its value,
  or it is a number.
\<close>

record raw_transaction =
  r_type :: "string option"
  r_amount :: "rat option"
  r_date :: "string option"
  r_description :: "string option"

datatype json_number = Absent | NotNumeric | Number rat

record ai_response =
  r_transactions :: "raw_transaction list option"
  r_current_balance :: json_number

definition fresh_data :: json_data where
  "fresh_data = \<lparr>j_transactions = [], j_current_balance = 0, j_next_id = 1\<rparr>"

text \<open>
  The loop over \<^verbatim>\<open>transaction_list\<close>: the rows collected so far and the next id are its
  state; \<^theory_text>\<open>None\<close> is the exception of a row that cannot be converted.
\<close>

fun append_batch ::
  "raw_transaction list \<Rightarrow> string transaction list \<Rightarrow> int
     \<Rightarrow> (string transaction list \<times> int) option" where
  "append_batch [] txs nid = Some (txs, nid)"
| "append_batch (r # rs) txs nid =
     (case (r_type r, r_amount r, r_date r, r_description r) of
        (Some ty, Some a, Some d, Some ds) \<Rightarrow>
          append_batch rs
            (txs @ [\<lparr>tx_id = nid, tx_type = ty, amount = \<bar>a\<bar>, date = d, description = ds,
                      status = ''confirmed'', probability = 100\<rparr>])
            (nid + 1)
      | _ \<Rightarrow> None)"

text \<open>
  The result is the function's return value and the file afterwards.  Every exception
  is caught by the outer \<^verbatim>\<open>except\<close>, which returns \<^verbatim>\<open>False\<close>; the file is written only
  by the last statement of the \<^verbatim>\<open>try\<close> block, so it is untouched then.
\<close>

definition save_to_cashflow_data ::
  "ai_response \<Rightarrow> json_data option \<Rightarrow> bool \<times> json_data option" where
  "save_to_cashflow_data transactions file =
     (let existing_data = (case file of None \<Rightarrow> fresh_data | Some data \<Rightarrow> data);
          transaction_list = (case r_transactions transactions of None \<Rightarrow> [] | Some l \<Rightarrow> l)
      in case append_batch transaction_list (j_transactions existing_data)
                (j_next_id existing_data) of
           None \<Rightarrow> (False, file)
         | Some (txs, nid) \<Rightarrow>
             (case r_current_balance transactions of
                NotNumeric \<Rightarrow> (False, file)
              | Absent \<Rightarrow>
                  (True, Some \<lparr>j_transactions = txs,
                               j_current_balance = j_current_balance existing_data,
                               j_next_id = nid\<rparr>)
              | Number b \<Rightarrow>
                  (True, Some \<lparr>j_transactions = txs, j_current_balance = b,
                               j_next_id = nid\<rparr>)))"

section \<open>Example data\<close>

text \<open>The two transactions of the specification's end-to-end example.\<close>

definition example_df :: "date transaction list" where
  "example_df =
     [\<lparr>tx_id = 1, tx_type = ''income'', amount = 5000, date = (2025, 1, 1),
       description = ''Invoice'', status = ''confirmed'', probability = 100\<rparr>,
      \<lparr>tx_id = 2, tx_type = ''expense'', amount = 2000, date = (2025, 1, 3),
       description = ''Rent'', status = ''confirmed'', probability = 100\<rparr>]"


definition example_9999_df :: "date transaction list" where
  "example_9999_df =
     [\<lparr>tx_id = 9999, tx_type = ''income'', amount = 100, date = (2025, 1, 1),
       description = ''Old'', status = ''confirmed'', probability = 100\<rparr>]"

text \<open>A store holding the example table, and a file with a batch to merge into it.\<close>

definition example_world :: world where
  "example_world =
     \<lparr>session_state = \<lparr>transactions_df = example_df, current_balance = 1000, next_id = 3\<rparr>,
      cashflow_file = None\<rparr>"



section \<open>The calendar model is a calendar\<close>

text \<open>
  The day number grows by one from a day to the next, a valid date is followed by a valid
  date, and the order of dates is the order of their day numbers.
\<close>

lemma div_step:
  fixes z k :: int
  assumes "0 < k"
  shows "(z + 1) div k = z div k + (if (z + 1) mod k = 0 then 1 else 0)"
proof -
  define q where "q = z div k"
  define r where "r = z mod k"
  have z: "z = k * q + r" by (simp add: q_def r_def)
  have r: "0 \<le> r" "r < k" using assms by (simp_all add: r_def)
  show ?thesis
  proof (cases "r + 1 < k")
    case True
    have e: "z + 1 = k * q + (r + 1)" using z by simp
    have "(z + 1) div k = q" using e r True by (intro int_div_pos_eq [of _ _ _ "r + 1"]) simp_all
    moreover have "(z + 1) mod k = r + 1" using e r True by (intro int_mod_pos_eq [of _ _ q]) simp_all
    ultimately show ?thesis using r by (simp add: q_def)
  next
    case False
    with r have rk: "r + 1 = k" by simp
    have e: "z + 1 = k * (q + 1) + 0" using z rk by (simp add: algebra_simps)
    have "(z + 1) div k = q + 1" using e assms by (intro int_div_pos_eq [of _ _ _ 0]) simp_all
    moreover have "(z + 1) mod k = 0" using e assms by (intro int_mod_pos_eq [of _ _ "q + 1"]) simp_all
    ultimately show ?thesis by (simp add: q_def)
  qed
qed

lemma mod_chain100: "y mod 100 = 0 \<Longrightarrow> y mod 4 = 0" for y :: nat
proof -
  assume "y mod 100 = 0"
  then have "100 dvd y" by (simp only: mod_eq_0_iff_dvd)
  moreover have "(4::nat) dvd 100" by simp
  ultimately have "4 dvd y" by (rule dvd_trans [rotated])
  then show ?thesis by (simp only: mod_eq_0_iff_dvd)
qed

lemma mod_chain400: "y mod 400 = 0 \<Longrightarrow> y mod 100 = 0" for y :: nat
proof -
  assume "y mod 400 = 0"
  then have "400 dvd y" by (simp only: mod_eq_0_iff_dvd)
  moreover have "(100::nat) dvd 400" by simp
  ultimately have "100 dvd y" by (rule dvd_trans [rotated])
  then show ?thesis by (simp only: mod_eq_0_iff_dvd)
qed

lemma int_mod_zero: "int y mod int k = 0 \<longleftrightarrow> y mod k = 0"
proof -
  have "int y mod int k = int (y mod k)" by (simp add: zmod_int)
  then show ?thesis by simp
qed

lemma days_before_year_Suc:
  "days_before_year (Suc y) = days_before_year y + 365 + (if is_leap y then 1 else 0)"
proof -
  define z where "z = int y - 1"
  have zy: "z + 1 = int y" by (simp add: z_def)
  have m4: "(z + 1) mod 4 = 0 \<longleftrightarrow> y mod 4 = 0"
    using int_mod_zero [of y 4] by (simp add: zy)
  have m100: "(z + 1) mod 100 = 0 \<longleftrightarrow> y mod 100 = 0"
    using int_mod_zero [of y 100] by (simp add: zy)
  have m400: "(z + 1) mod 400 = 0 \<longleftrightarrow> y mod 400 = 0"
    using int_mod_zero [of y 400] by (simp add: zy)
  have d4: "(z + 1) div 4 = z div 4 + (if y mod 4 = 0 then 1 else 0)"
    using div_step [of 4 z] by (simp only: m4)
  have d100: "(z + 1) div 100 = z div 100 + (if y mod 100 = 0 then 1 else 0)"
    using div_step [of 100 z] by (simp only: m100)
  have d400: "(z + 1) div 400 = z div 400 + (if y mod 400 = 0 then 1 else 0)"
    using div_step [of 400 z] by (simp only: m400)
  have "days_before_year (Suc y) = (z + 1) * 365 + (z + 1) div 4 - (z + 1) div 100 + (z + 1) div 400"
    by (simp add: days_before_year_def zy Let_def)
  also have "\<dots> = days_before_year y + 365
      + ((if y mod 4 = 0 then 1 else 0) - (if y mod 100 = 0 then 1 else 0)
         + (if y mod 400 = 0 then 1 else 0))"
    unfolding d4 d100 d400 by (simp add: days_before_year_def z_def Let_def algebra_simps)
  also have "(if y mod 4 = 0 then 1 else 0) - (if y mod 100 = 0 then 1 else 0)
         + (if y mod 400 = 0 then 1 else 0) = (if is_leap y then 1 else (0::int))"
    using mod_chain100 [of y] mod_chain400 [of y] by (auto simp: is_leap_def)
  finally show ?thesis by simp
qed


lemma days_before_year_mono: "a \<le> b \<Longrightarrow> days_before_year a \<le> days_before_year b"
proof (induction b)
  case 0
  then show ?case by simp
next
  case (Suc b)
  show ?case
  proof (cases "a = Suc b")
    case True
    then show ?thesis by simp
  next
    case False
    with Suc have "days_before_year a \<le> days_before_year b" by simp
    then show ?thesis by (simp add: days_before_year_Suc)
  qed
qed

lemma month_cases:
  "1 \<le> m \<Longrightarrow> m \<le> 12 \<Longrightarrow>
   m = 1 \<or> m = 2 \<or> m = 3 \<or> m = 4 \<or> m = 5 \<or> m = 6 \<or> m = 7 \<or> m = 8 \<or> m = 9 \<or> m = 10
   \<or> m = 11 \<or> m = (12::nat)"
  by presburger

lemma days_before_month_step:
  "1 \<le> m \<Longrightarrow> m < 12 \<Longrightarrow> days_before_month y (Suc m) = days_before_month y m + int (days_in_month y m)"
proof -
  assume "1 \<le> m" "m < 12"
  then have "m = 1 \<or> m = 2 \<or> m = 3 \<or> m = 4 \<or> m = 5 \<or> m = 6 \<or> m = 7 \<or> m = 8 \<or> m = 9
      \<or> m = 10 \<or> m = 11"
    using month_cases [of m] by simp
  then show ?thesis
    by (elim disjE) (simp_all add: days_before_month_def days_in_month_def)
qed

lemma days_before_month_12: "days_before_month y 12 + 31 = 365 + (if is_leap y then 1 else 0)"
  by (simp add: days_before_month_def)

lemma days_before_month_1: "days_before_month y (Suc 0) = 0"
  by (simp add: days_before_month_def)

lemma toordinal_next_day:
  assumes "valid_date dt"
  shows "toordinal (next_day dt) = toordinal dt + 1"
proof -
  obtain y m d where dt: "dt = (y, m, d)" by (cases dt)
  from assms dt have v: "1 \<le> m" "m \<le> 12" "1 \<le> d" "d \<le> days_in_month y m" by simp_all
  show ?thesis
  proof (cases "d < days_in_month y m")
    case True
    then show ?thesis by (simp add: dt)
  next
    case False
    with v have d: "d = days_in_month y m" by simp
    show ?thesis
    proof (cases "m < 12")
      case True
      with v d show ?thesis
        using days_before_month_step [of m y] by (simp add: dt)
    next
      case False
      with v have m: "m = 12" by simp
      have "d = 31" using d m by (simp add: days_in_month_def)
      then show ?thesis
        using days_before_month_12 [of y] m d
        by (simp add: dt days_before_year_Suc days_before_month_1)
    qed
  qed
qed

lemma valid_next_day:
  assumes "valid_date dt"
  shows "valid_date (next_day dt)"
proof -
  obtain y m d where dt: "dt = (y, m, d)" by (cases dt)
  have pos: "1 \<le> days_in_month y' m'" for y' m'
    by (simp add: days_in_month_def)
  from assms dt pos show ?thesis by auto
qed

lemma add_days_int: "add_days dt (int k) = (next_day ^^ k) dt"
  by (simp add: add_days_def)

lemma add_days_nonneg:
  assumes "valid_date dt"
  shows "valid_date (add_days dt (int k)) \<and> toordinal (add_days dt (int k)) = toordinal dt + int k"
  unfolding add_days_int
proof (induction k)
  case 0
  show ?case using assms by simp
next
  case (Suc k)
  then show ?case
    by (simp add: valid_next_day toordinal_next_day)
qed

lemma days_before_month_bound:
  assumes "1 \<le> m" "m \<le> 12"
  shows "0 \<le> days_before_month y m
     \<and> days_before_month y m + int (days_in_month y m) \<le> 365 + (if is_leap y then 1 else 0)"
  using month_cases [OF assms]
  by (elim disjE) (simp_all add: days_before_month_def days_in_month_def)

lemma days_before_month_mono:
  assumes "1 \<le> m" "m < m'" "m' \<le> 12"
  shows "days_before_month y m + int (days_in_month y m) \<le> days_before_month y m'"
  using assms
proof (induction m')
  case 0
  then show ?case by simp
next
  case (Suc k)
  show ?case
  proof (cases "m = k")
    case True
    with Suc.prems show ?thesis using days_before_month_step [of k y] by simp
  next
    case False
    with Suc have "days_before_month y m + int (days_in_month y m) \<le> days_before_month y k"
      by simp
    moreover have "days_before_month y (Suc k) = days_before_month y k + int (days_in_month y k)"
      using Suc.prems days_before_month_step [of k y] by simp
    ultimately show ?thesis by simp
  qed
qed

lemma toordinal_strict_mono:
  assumes "valid_date a" "valid_date b" "a < b"
  shows "toordinal a < toordinal b"
proof -
  obtain y m d where a: "a = (y, m, d)" by (cases a)
  obtain y' m' d' where b: "b = (y', m', d')" by (cases b)
  from assms(1) a have va: "1 \<le> m" "m \<le> 12" "1 \<le> d" "d \<le> days_in_month y m" by simp_all
  from assms(2) b have vb: "1 \<le> m'" "m' \<le> 12" "1 \<le> d'" "d' \<le> days_in_month y' m'" by simp_all
  from assms(3) a b have "y < y' \<or> (y = y' \<and> m < m') \<or> (y = y' \<and> m = m' \<and> d < d')"
    by (auto simp: less_prod_def)
  then consider "y < y'" | "y = y'" "m < m'" | "y = y'" "m = m'" "d < d'"
    by blast
  then show ?thesis
  proof cases
    case 1
    then have "days_before_year (Suc y) \<le> days_before_year y'"
      by (intro days_before_year_mono) simp
    moreover have "days_before_month y m + int d \<le> 365 + (if is_leap y then 1 else 0)"
      using days_before_month_bound [OF va(1,2), of y] va by simp
    moreover have "0 \<le> days_before_month y' m'"
      using days_before_month_bound [OF vb(1,2), of y'] by simp
    ultimately show ?thesis using vb
      by (simp add: a b days_before_year_Suc)
  next
    case 2
    then show ?thesis
      using days_before_month_mono [of m m' y] va vb by (simp add: a b)
  next
    case 3
    then show ?thesis by (simp add: a b)
  qed
qed

lemma toordinal_mono:
  assumes "valid_date a" "valid_date b" "a \<le> b"
  shows "toordinal a \<le> toordinal b"
proof (cases "a = b")
  case True
  then show ?thesis by simp
next
  case False
  with assms(3) have "a < b" by simp
  then show ?thesis using toordinal_strict_mono [OF assms(1,2)] by simp
qed

subsection \<open>Writing a date and reading it back\<close>

lemma digit_char_props:
  assumes "k < 10"
  shows "is_digit (digit_char k)" "digit_val (digit_char k) = k"
  using assms by (simp_all add: is_digit_def digit_val_def digit_char_def)

lemma digit_char_eq_iff:
  assumes "j < 10" "k < 10"
  shows "digit_char j = digit_char k \<longleftrightarrow> j = k"
  using digit_char_props(2) [OF assms(1)] digit_char_props(2) [OF assms(2)] by metis

lemma digit_char_literals:
  "CHR ''0'' = digit_char 0" "CHR ''1'' = digit_char 1" "CHR ''3'' = digit_char 3"
proof -
  have "digit_char 0 = CHR ''0''" "digit_char 1 = CHR ''1''" "digit_char 3 = CHR ''3''"
    by (simp_all add: digit_char_def char_of_eq_iff)
  then show "CHR ''0'' = digit_char 0" "CHR ''1'' = digit_char 1" "CHR ''3'' = digit_char 3"
    by simp_all
qed

lemma digit_char_not_special:
  assumes "k < 10"
  shows "digit_char k \<noteq> CHR ''-''" "digit_char k \<noteq> CHR '' ''"
proof -
  have "\<not> is_digit (CHR ''-'')" "\<not> is_digit (CHR '' '')" by (simp_all add: is_digit_def)
  then show "digit_char k \<noteq> CHR ''-''" "digit_char k \<noteq> CHR '' ''"
    using digit_char_props(1) [OF assms] by auto
qed

lemma in_range_digit_char:
  assumes "k < 10"
  shows "in_range (digit_char k) lo hi \<longleftrightarrow> lo \<le> k \<and> k \<le> hi"
  using digit_char_props [OF assms] by (simp add: in_range_def)

lemma digits_small: "n < 10 \<Longrightarrow> digits n = [digit_char n]"
  by (simp add: digits.simps)

lemma digits_step: "10 \<le> n \<Longrightarrow> digits n = digits (n div 10) @ [digit_char (n mod 10)]"
  by (subst digits.simps) simp

lemma zero_pad_2:
  assumes "n < 100"
  shows "zero_pad 2 n = [digit_char (n div 10), digit_char (n mod 10)]"
proof (cases "n < 10")
  case True
  then show ?thesis by (simp add: zero_pad_def digits_small digit_char_literals)
next
  case False
  then have "10 \<le> n" by simp
  moreover from assms have "n div 10 < 10" by simp
  ultimately show ?thesis by (simp add: zero_pad_def digits_step digits_small)
qed

lemma replicate_small: "replicate 2 x = [x, x]" "replicate 3 x = [x, x, x]"
  by (simp_all add: numeral_2_eq_2 numeral_3_eq_3)

lemma digits_4:
  assumes "n < 10000"
  shows "replicate (4 - length (digits n)) (CHR ''0'') @ digits n =
     [digit_char (n div 1000), digit_char (n div 100 mod 10), digit_char (n div 10 mod 10),
      digit_char (n mod 10)]"
proof -
  define a where "a = n div 10"
  define b where "b = a div 10"
  define c where "c = b div 10"
  have ab: "n div 100 = b" "n div 1000 = c"
    by (simp_all add: a_def b_def c_def div_mult2_eq [symmetric])
  have c: "c < 10" using assms unfolding ab(2) [symmetric] by simp
  consider "n < 10" | "10 \<le> n" "a < 10" | "10 \<le> n" "10 \<le> a" "b < 10"
    | "10 \<le> n" "10 \<le> a" "10 \<le> b" by linarith
  then show ?thesis
  proof cases
    case 1
    then have "a = 0" "b = 0" "c = 0" by (simp_all add: a_def b_def c_def)
    with 1 show ?thesis
      by (simp add: ab digits_small digit_char_literals a_def [symmetric] replicate_small)
  next
    case 2
    then have "b = 0" "c = 0" by (simp_all add: b_def c_def)
    with 2 show ?thesis
      by (simp add: ab digits_step digits_small digit_char_literals a_def [symmetric]
          replicate_small)
  next
    case 3
    then have "c = 0" by (simp_all add: c_def)
    with 3 show ?thesis
      by (simp add: ab digits_step digits_small digit_char_literals a_def [symmetric]
          b_def [symmetric])
  next
    case 4
    with c show ?thesis
      by (simp add: ab digits_step digits_small digit_char_literals a_def [symmetric]
          b_def [symmetric] c_def [symmetric])
  qed
qed

lemma decimal_4:
  fixes n :: nat
  shows "1000 * (n div 1000) + 100 * (n div 100 mod 10) + 10 * (n div 10 mod 10) + n mod 10 = n"
proof -
  define a where "a = n div 10"
  define b where "b = a div 10"
  define c where "c = b div 10"
  have ab: "n div 100 = b" "n div 1000 = c"
    by (simp_all add: a_def b_def c_def div_mult2_eq [symmetric])
  have "n = 10 * a + n mod 10" by (simp add: a_def)
  moreover have "a = 10 * b + a mod 10" by (simp add: b_def)
  moreover have "b = 10 * c + b mod 10" by (simp add: c_def)
  ultimately show ?thesis unfolding ab a_def [symmetric] by linarith
qed

lemma parse_year_ok:
  assumes "y < 10000"
  shows "parse_year (digit_char (y div 1000) # digit_char (y div 100 mod 10)
            # digit_char (y div 10 mod 10) # digit_char (y mod 10) # rest) = Some (y, rest)"
proof -
  from assms have "y div 1000 < 10" by simp
  then show ?thesis by (simp add: digit_char_props decimal_4)
qed

lemma parse_month_ok:
  assumes "1 \<le> m" "m \<le> 12"
  shows "parse_month (digit_char (m div 10) # digit_char (m mod 10) # rest) = Some (m, rest)"
proof (cases "m < 10")
  case True
  with assms show ?thesis
    by (simp add: digit_char_literals digit_char_eq_iff in_range_digit_char digit_char_props)
next
  case False
  with assms have "m div 10 = 1" "m mod 10 \<le> 2" "10 + m mod 10 = m" by presburger+
  then show ?thesis
    by (simp add: digit_char_literals digit_char_eq_iff in_range_digit_char digit_char_props)
qed

lemma parse_day_ok:
  assumes "1 \<le> d" "d \<le> 31"
  shows "parse_day (digit_char (d div 10) # digit_char (d mod 10) # rest) = Some (d, rest)"
proof -
  have u: "d mod 10 < 10" by simp
  consider "d < 10" | "10 \<le> d" "d < 30" | "d = 30" | "d = 31"
    using assms by linarith
  then show ?thesis
  proof cases
    case 1
    with assms show ?thesis
      by (simp add: digit_char_literals digit_char_eq_iff in_range_digit_char digit_char_props)
  next
    case 2
    then have "1 \<le> d div 10" "d div 10 \<le> 2" by linarith+
    moreover from this have "d div 10 < 10" "d div 10 \<noteq> 3" by simp_all
    moreover have "10 * (d div 10) + d mod 10 = d" by simp
    ultimately show ?thesis using u
      by (simp add: digit_char_literals digit_char_eq_iff in_range_digit_char digit_char_props)
  next
    case 3
    then show ?thesis
      by (simp add: digit_char_literals digit_char_eq_iff in_range_digit_char digit_char_props)
  next
    case 4
    then show ?thesis
      by (simp add: digit_char_literals digit_char_eq_iff in_range_digit_char digit_char_props)
  qed
qed

lemma days_in_month_le: "days_in_month y m \<le> 31"
  by (simp add: days_in_month_def)

lemma strptime_isoformat:
  assumes "py_date dt"
  shows "strptime (isoformat dt) = Some dt"
proof -
  obtain y m d where dt: "dt = (y, m, d)" by (cases dt)
  from assms dt have v: "valid_date (y, m, d)" and y: "y < 10000"
    by (simp_all add: py_date_def)
  from v have m: "1 \<le> m" "m \<le> 12" and d: "1 \<le> d" "d \<le> 31"
    using days_in_month_le [of y m] by simp_all
  have iso: "isoformat (y, m, d) =
     digit_char (y div 1000) # digit_char (y div 100 mod 10) # digit_char (y div 10 mod 10)
       # digit_char (y mod 10) # CHR ''-'' # digit_char (m div 10) # digit_char (m mod 10)
       # CHR ''-'' # [digit_char (d div 10), digit_char (d mod 10)]"
    using y m d by (simp add: zero_pad_def [of 4] digits_4 zero_pad_2)
  have "strptime (isoformat (y, m, d)) = Some (y, m, d)"
    unfolding iso strptime_def
    by (simp only: parse_year_ok [OF y] parse_month_ok [OF m] parse_day_ok [OF d]
        expect_dash.simps option.case prod.case v if_True simp_thms)
  then show ?thesis by (simp only: dt)
qed

section \<open>Claims about the health scorer\<close>

lemma negative_days_find:
  "(case filter P xs of [] \<Rightarrow> None | p # _ \<Rightarrow> Some (f p)) = map_option f (find P xs)"
  by (induction xs) auto

lemma days_until_danger_find:
  "days_until_danger (calculate_health_metrics projection_df cur today) =
     map_option (\<lambda>p. days_between (p_date p) today) (find (\<lambda>p. balance p < 0) projection_df)"
  by (simp add: calculate_health_metrics_def Let_def negative_days_find)

lemma health_score_eq:
  "health_score (calculate_health_metrics projection_df cur today) =
     score_of (days_until_danger (calculate_health_metrics projection_df cur today))"
  by (simp add: calculate_health_metrics_def Let_def)

text \<open>
  Claim C1, as the code has it.  The health score is 100 when no point of the timeline
  has a balance below 0.  Otherwise, with d the number of days from today to the first
  such point, the score is max(0, 2d) when d < 30, 60 + (d - 30) when 30 \<le> d < 60, and 90
  when d \<ge> 60.  At the boundaries: d = 0 gives 0, d = 29 gives 58, d = 30 gives 60 (not
  90), d = 59 gives 89, d = 60 gives 90, and no danger date gives 100.
\<close>

theorem C1_health_score_piecewise:
  fixes projection_df :: "projection_point list" and cur :: rat and today :: date
  defines "m \<equiv> calculate_health_metrics projection_df cur today"
  shows "days_until_danger m =
           map_option (\<lambda>p. days_between (p_date p) today)
             (find (\<lambda>p. balance p < 0) projection_df)
    \<and> ((\<forall>p \<in> set projection_df. \<not> balance p < 0) \<longrightarrow> health_score m = 100)
    \<and> (\<forall>d. days_until_danger m = Some d \<longrightarrow>
          (d < 30 \<longrightarrow> health_score m = max 0 (d * 2))
        \<and> (30 \<le> d \<and> d < 60 \<longrightarrow> health_score m = 60 + (d - 30))
        \<and> (60 \<le> d \<longrightarrow> health_score m = 90))
    \<and> (days_until_danger m = Some 0 \<longrightarrow> health_score m = 0)
    \<and> (days_until_danger m = Some 29 \<longrightarrow> health_score m = 58)
    \<and> (days_until_danger m = Some 30 \<longrightarrow> health_score m = 60)
    \<and> (days_until_danger m = Some 59 \<longrightarrow> health_score m = 89)
    \<and> (days_until_danger m = Some 60 \<longrightarrow> health_score m = 90)
    \<and> (days_until_danger m = None \<longrightarrow> health_score m = 100)"
proof -
  have none: "(\<forall>p \<in> set projection_df. \<not> balance p < 0) \<Longrightarrow> days_until_danger m = None"
    unfolding m_def days_until_danger_find by (simp add: find_None_iff)
  have hs: "health_score m = score_of (days_until_danger m)"
    unfolding m_def by (rule health_score_eq)
  have a: "days_until_danger m =
           map_option (\<lambda>p. days_between (p_date p) today)
             (find (\<lambda>p. balance p < 0) projection_df)"
    unfolding m_def by (rule days_until_danger_find)
  have b: "(\<forall>p \<in> set projection_df. \<not> balance p < 0) \<longrightarrow> health_score m = 100"
    using none by (simp add: hs score_of_def)
  have c: "\<forall>d. days_until_danger m = Some d \<longrightarrow>
          (d < 30 \<longrightarrow> health_score m = max 0 (d * 2))
        \<and> (30 \<le> d \<and> d < 60 \<longrightarrow> health_score m = 60 + (d - 30))
        \<and> (60 \<le> d \<longrightarrow> health_score m = 90)"
    by (simp add: hs score_of_def)
  have d: "(days_until_danger m = Some 0 \<longrightarrow> health_score m = 0)
    \<and> (days_until_danger m = Some 29 \<longrightarrow> health_score m = 58)
    \<and> (days_until_danger m = Some 30 \<longrightarrow> health_score m = 60)
    \<and> (days_until_danger m = Some 59 \<longrightarrow> health_score m = 89)
    \<and> (days_until_danger m = Some 60 \<longrightarrow> health_score m = 90)
    \<and> (days_until_danger m = None \<longrightarrow> health_score m = 100)"
    by (simp add: hs score_of_def)
  from a b c d show ?thesis by (intro conjI) simp_all
qed

text \<open>
  Claim C1 as the specification states it fails at d = 30: a timeline whose first
  negative balance is dated 30 days after today scores 60, not 90.
\<close>

theorem C1_counterexample:
  "days_until_danger
     (calculate_health_metrics
        [\<lparr>p_date = (2025, 1, 1), balance = 100, daily_income = 0, daily_expenses = 0, net_flow = 0\<rparr>,
         \<lparr>p_date = (2025, 1, 31), balance = - 1, daily_income = 0, daily_expenses = 101,
          net_flow = - 101\<rparr>] 100 (2025, 1, 1)) = Some 30
   \<and> health_score
     (calculate_health_metrics
        [\<lparr>p_date = (2025, 1, 1), balance = 100, daily_income = 0, daily_expenses = 0, net_flow = 0\<rparr>,
         \<lparr>p_date = (2025, 1, 31), balance = - 1, daily_income = 0, daily_expenses = 101,
          net_flow = - 101\<rparr>] 100 (2025, 1, 1)) \<noteq> 90"
  by (simp add: calculate_health_metrics_def score_of_def days_between_def
      days_before_year_def days_before_month_def)

text \<open>The same timeline is a witness of the piecewise law at the boundary d = 30.\<close>

theorem C1_health_score_piecewise_witness:
  "days_until_danger
     (calculate_health_metrics
        [\<lparr>p_date = (2025, 1, 1), balance = 100, daily_income = 0, daily_expenses = 0, net_flow = 0\<rparr>,
         \<lparr>p_date = (2025, 1, 31), balance = - 1, daily_income = 0, daily_expenses = 101,
          net_flow = - 101\<rparr>] 100 (2025, 1, 1)) = Some 30
   \<and> health_score
     (calculate_health_metrics
        [\<lparr>p_date = (2025, 1, 1), balance = 100, daily_income = 0, daily_expenses = 0, net_flow = 0\<rparr>,
         \<lparr>p_date = (2025, 1, 31), balance = - 1, daily_income = 0, daily_expenses = 101,
          net_flow = - 101\<rparr>] 100 (2025, 1, 1)) = 60"
proof -
  let ?m = "calculate_health_metrics
        [\<lparr>p_date = (2025, 1, 1), balance = 100, daily_income = 0, daily_expenses = 0, net_flow = 0\<rparr>,
         \<lparr>p_date = (2025, 1, 31), balance = - 1, daily_income = 0, daily_expenses = 101,
          net_flow = - 101\<rparr>] 100 (2025, 1, 1)"
  have d: "days_until_danger ?m = Some 30"
    by (simp add: days_until_danger_find days_between_def days_before_year_def
        days_before_month_def)
  with C1_health_score_piecewise [of "[\<lparr>p_date = (2025, 1, 1), balance = 100, daily_income = 0, daily_expenses = 0, net_flow = 0\<rparr>,
         \<lparr>p_date = (2025, 1, 31), balance = - 1, daily_income = 0, daily_expenses = 101,
          net_flow = - 101\<rparr>]" 100 "(2025, 1, 1)"]
  have "health_score ?m = 60" by blast
  with d show ?thesis by simp
qed

text \<open>
  Claim C9.  The health score is an integer between 0 and 100, and when the first
  negative balance is dated before today (d < 0) the score is 0, not a negative number.
\<close>

theorem C9_health_score_range:
  fixes projection_df :: "projection_point list" and cur :: rat and today :: date
  defines "m \<equiv> calculate_health_metrics projection_df cur today"
  shows "0 \<le> health_score m \<and> health_score m \<le> 100
    \<and> (\<forall>d. days_until_danger m = Some d \<and> d < 0 \<longrightarrow> health_score m = 0)"
proof -
  have hs: "health_score m = score_of (days_until_danger m)"
    unfolding m_def by (rule health_score_eq)
  show ?thesis
    unfolding hs by (auto simp: score_of_def split: option.splits)
qed

text \<open>A danger date 30 days in the past: the score is 0.\<close>

theorem C9_health_score_range_witness:
  "days_until_danger
     (calculate_health_metrics
        [\<lparr>p_date = (2025, 1, 1), balance = - 1, daily_income = 0, daily_expenses = 1,
          net_flow = - 1\<rparr>] 0 (2025, 1, 31)) = Some (- 30)
   \<and> health_score
     (calculate_health_metrics
        [\<lparr>p_date = (2025, 1, 1), balance = - 1, daily_income = 0, daily_expenses = 1,
          net_flow = - 1\<rparr>] 0 (2025, 1, 31)) = 0"
proof -
  let ?m = "calculate_health_metrics
        [\<lparr>p_date = (2025, 1, 1), balance = - 1, daily_income = 0, daily_expenses = 1,
          net_flow = - 1\<rparr>] 0 (2025, 1, 31)"
  have d: "days_until_danger ?m = Some (- 30)"
    by (simp add: days_until_danger_find days_between_def days_before_year_def
        days_before_month_def)
  with C9_health_score_range [of "[\<lparr>p_date = (2025, 1, 1), balance = - 1, daily_income = 0,
          daily_expenses = 1, net_flow = - 1\<rparr>]" 0 "(2025, 1, 31)"]
  have "health_score ?m = 0" by simp
  with d show ?thesis by simp
qed

section \<open>Claims about the projection calculator\<close>

lemma length_daily_flows: "length (daily_flows df dts cur) = length dts"
  by (induction dts arbitrary: cur) (simp_all add: Let_def)

lemma dates_daily_flows: "map p_date (daily_flows df dts cur) = dts"
  by (induction dts arbitrary: cur) (simp_all add: Let_def)



lemma upto_as_map: "map (\<lambda>k. x + int k) [0 ..< n] = [x .. x + int n - 1]"
proof (rule nth_equalityI)
  show "length (map (\<lambda>k. x + int k) [0 ..< n]) = length [x .. x + int n - 1]" by simp
next
  fix i assume "i < length (map (\<lambda>k. x + int k) [0 ..< n])"
  then have "i < n" by simp
  then show "map (\<lambda>k. x + int k) [0 ..< n] ! i = [x .. x + int n - 1] ! i" by simp
qed

lemma min_date_Min: "df \<noteq> [] \<Longrightarrow> min_date df = Min (date ` set df)"
proof -
  assume "df \<noteq> []"
  then obtain t ts where df: "df = t # ts" by (cases df) auto
  have "min_date df = Min (set (date t # map date ts))"
    unfolding min_date_def df by (simp only: Min.set_eq_fold list.sel)
  then show ?thesis by (simp add: df)
qed

lemma max_date_Max: "df \<noteq> [] \<Longrightarrow> max_date df = Max (date ` set df)"
proof -
  assume "df \<noteq> []"
  then obtain t ts where df: "df = t # ts" by (cases df) auto
  have "max_date df = Max (set (date t # map date ts))"
    unfolding max_date_def df by (simp only: Max.set_eq_fold list.sel)
  then show ?thesis by (simp add: df)
qed

lemma toordinal_inj:
  assumes "valid_date a" "valid_date b" "toordinal a = toordinal b"
  shows "a = b"
proof (rule ccontr)
  assume "a \<noteq> b"
  then consider "a < b" | "b < a" by (auto simp: neq_iff)
  then show False
    using toordinal_strict_mono [OF assms(1,2)] toordinal_strict_mono [OF assms(2,1)] assms(3)
    by cases simp_all
qed

lemma toordinal_le_iff:
  assumes "valid_date a" "valid_date b"
  shows "toordinal a \<le> toordinal b \<longleftrightarrow> a \<le> b"
proof
  assume "a \<le> b"
  then show "toordinal a \<le> toordinal b" by (rule toordinal_mono [OF assms])
next
  assume le: "toordinal a \<le> toordinal b"
  show "a \<le> b"
  proof (rule ccontr)
    assume "\<not> a \<le> b"
    then have "b < a" by simp
    from toordinal_strict_mono [OF assms(2,1) this] le show False by simp
  qed
qed

lemma toordinal_date_range:
  assumes "valid_date a"
  shows "map toordinal (date_range a b) = [toordinal a .. toordinal b]"
proof -
  define n where "n = nat (days_between b a + 1)"
  have "map toordinal (date_range a b) = map (\<lambda>k. toordinal a + int k) [0 ..< n]"
    unfolding date_range_def n_def using add_days_nonneg [OF assms] by simp
  also have "\<dots> = [toordinal a .. toordinal a + int n - 1]" by (rule upto_as_map)
  also have "\<dots> = [toordinal a .. toordinal b]"
  proof (cases "toordinal a \<le> toordinal b")
    case True
    then have "toordinal a + int n - 1 = toordinal b" by (simp add: n_def days_between_def)
    then show ?thesis by simp
  next
    case False
    then have "n = 0" by (simp add: n_def days_between_def)
    with False show ?thesis by simp
  qed
  finally show ?thesis .
qed

lemma valid_date_range:
  assumes "valid_date a" "d \<in> set (date_range a b)"
  shows "valid_date d"
  using assms add_days_nonneg [OF assms(1)] by (auto simp: date_range_def)

lemma distinct_date_range:
  assumes "valid_date a"
  shows "distinct (date_range a b)"
proof -
  have "distinct (map toordinal (date_range a b))"
    unfolding toordinal_date_range [OF assms] by simp
  then show ?thesis by (simp add: distinct_map)
qed

lemma set_date_range:
  assumes "valid_date a" "valid_date b"
  shows "set (date_range a b) = {d. valid_date d \<and> a \<le> d \<and> d \<le> b}"
proof (intro set_eqI iffI)
  fix d assume d: "d \<in> set (date_range a b)"
  then have v: "valid_date d" by (rule valid_date_range [OF assms(1)])
  from d have "toordinal d \<in> set (map toordinal (date_range a b))" by simp
  then have "toordinal a \<le> toordinal d" "toordinal d \<le> toordinal b"
    unfolding toordinal_date_range [OF assms(1)] by simp_all
  then have "a \<le> d" "d \<le> b"
    using toordinal_le_iff [OF assms(1) v] toordinal_le_iff [OF v assms(2)] by simp_all
  with v show "d \<in> {d. valid_date d \<and> a \<le> d \<and> d \<le> b}" by simp
next
  fix d assume "d \<in> {d. valid_date d \<and> a \<le> d \<and> d \<le> b}"
  then have v: "valid_date d" and le: "a \<le> d" "d \<le> b" by simp_all
  from le have "toordinal d \<in> set [toordinal a .. toordinal b]"
    using toordinal_mono [OF assms(1) v] toordinal_mono [OF v assms(2)] by simp
  then have "toordinal d \<in> toordinal ` set (date_range a b)"
    unfolding toordinal_date_range [OF assms(1), symmetric] by simp
  then obtain x where x: "x \<in> set (date_range a b)" "toordinal d = toordinal x" by auto
  from x(1) have "valid_date x" by (rule valid_date_range [OF assms(1)])
  from toordinal_inj [OF v this x(2)] x(1) show "d \<in> set (date_range a b)" by simp
qed

lemma one_point_per_day:
  assumes "valid_date a" "valid_date b" "valid_date d" "a \<le> d" "d \<le> b"
  shows "length (filter (\<lambda>p. p_date p = d) (daily_flows df (date_range a b) cur)) = 1"
proof -
  have "length (filter (\<lambda>p. p_date p = d) (daily_flows df (date_range a b) cur))
      = length (filter (\<lambda>x. x = d) (map p_date (daily_flows df (date_range a b) cur)))"
    by (simp add: comp_def)
  also have "\<dots> = length (filter (\<lambda>x. x = d) (date_range a b))"
    by (simp only: dates_daily_flows)
  also have "\<dots> = card ({x. x = d} \<inter> set (date_range a b))"
    by (rule distinct_length_filter [OF distinct_date_range [OF assms(1)]])
  also have "{x. x = d} \<inter> set (date_range a b) = {d}"
    using assms by (auto simp: set_date_range)
  finally show ?thesis by simp
qed

lemma Min_le_Max_aux:
  fixes A :: "'a::linorder set"
  assumes "finite A" "A \<noteq> {}"
  shows "Min A \<le> Max A"
proof -
  from assms(2) obtain x where x: "x \<in> A" by blast
  show ?thesis
    by (rule order_trans [OF Min_le [OF assms(1) x] Max_ge [OF assms(1) x]])
qed

text \<open>
  Claim C2.  An empty transaction set yields the single point (today, starting balance,
  0, 0, 0).  A transaction set that is not empty and whose dates are valid yields the
  leading point (today, starting balance, 0, 0, 0) followed by the days from the least
  date to the greatest date in order: every calendar day in that range has exactly one
  daily point, no daily point lies outside it, and the timeline has
  (greatest - least in days) + 2 points.
\<close>

theorem C2_projection_points:
  fixes df :: "date transaction list" and starting_balance :: rat and today :: date
  defines "out \<equiv> calculate_cash_flow_projection df starting_balance today"
    and "mn \<equiv> Min (date ` set df)" and "mx \<equiv> Max (date ` set df)"
  shows "calculate_cash_flow_projection [] starting_balance today =
           [\<lparr>p_date = today, balance = starting_balance,
             daily_income = 0, daily_expenses = 0, net_flow = 0\<rparr>]
    \<and> (df \<noteq> [] \<and> (\<forall>t \<in> set df. valid_date (date t)) \<longrightarrow>
          hd out = \<lparr>p_date = today, balance = starting_balance,
                    daily_income = 0, daily_expenses = 0, net_flow = 0\<rparr>
        \<and> length out = nat (days_between mx mn) + 2
        \<and> map (\<lambda>p. toordinal (p_date p)) (tl out) = [toordinal mn .. toordinal mx]
        \<and> (\<forall>p \<in> set (tl out). valid_date (p_date p) \<and> mn \<le> p_date p \<and> p_date p \<le> mx)
        \<and> (\<forall>d. valid_date d \<and> mn \<le> d \<and> d \<le> mx \<longrightarrow>
               length (filter (\<lambda>p. p_date p = d) (tl out)) = 1))"
proof (intro conjI impI)
  show "calculate_cash_flow_projection [] starting_balance today =
           [\<lparr>p_date = today, balance = starting_balance,
             daily_income = 0, daily_expenses = 0, net_flow = 0\<rparr>]"
    by (simp add: calculate_cash_flow_projection_def today_point_def)
next
  assume "df \<noteq> [] \<and> (\<forall>t \<in> set df. valid_date (date t))"
  then have ne: "df \<noteq> []" and valid: "\<forall>t \<in> set df. valid_date (date t)" by simp_all
  have fin: "finite (date ` set df)" "date ` set df \<noteq> {}" using ne by simp_all
  have "mn \<in> date ` set df" "mx \<in> date ` set df"
    unfolding mn_def mx_def using Min_in [OF fin] Max_in [OF fin] by blast+
  with valid have vmn: "valid_date mn" and vmx: "valid_date mx" by auto
  have le: "mn \<le> mx" unfolding mn_def mx_def by (rule Min_le_Max_aux [OF fin])
  then have ole: "toordinal mn \<le> toordinal mx" by (rule toordinal_mono [OF vmn vmx])
  have tl: "tl out = daily_flows df (date_range mn mx) starting_balance"
    and "hd out = today_point today starting_balance"
    and len: "length out = Suc (length (date_range mn mx))"
    using ne
    by (simp_all add: out_def calculate_cash_flow_projection_def min_date_Min max_date_Max
        mn_def mx_def length_daily_flows)
  then show "hd out = \<lparr>p_date = today, balance = starting_balance,
                    daily_income = 0, daily_expenses = 0, net_flow = 0\<rparr>"
    by (simp add: today_point_def)
  have "map toordinal (map p_date (tl out)) = [toordinal mn .. toordinal mx]"
    unfolding tl dates_daily_flows by (rule toordinal_date_range [OF vmn])
  then show ords: "map (\<lambda>p. toordinal (p_date p)) (tl out) = [toordinal mn .. toordinal mx]"
    by (simp add: comp_def)
  have "length (date_range mn mx) = length (map toordinal (date_range mn mx))" by simp
  also have "\<dots> = nat (days_between mx mn) + 1"
    unfolding toordinal_date_range [OF vmn] using ole by (simp add: days_between_def)
  finally show "length out = nat (days_between mx mn) + 2" using len by simp
  have "p_date ` set (tl out) = set (date_range mn mx)"
    unfolding tl using dates_daily_flows [of df "date_range mn mx" starting_balance]
    by (metis set_map)
  then show "\<forall>p \<in> set (tl out). valid_date (p_date p) \<and> mn \<le> p_date p \<and> p_date p \<le> mx"
    unfolding set_date_range [OF vmn vmx] by blast
  show "\<forall>d. valid_date d \<and> mn \<le> d \<and> d \<le> mx \<longrightarrow>
               length (filter (\<lambda>p. p_date p = d) (tl out)) = 1"
    unfolding tl using one_point_per_day [OF vmn vmx] by blast
qed

lemma example_df_facts:
  "example_df \<noteq> []" "\<forall>t \<in> set example_df. valid_date (date t)"
  "Min (date ` set example_df) = (2025, 1, 1)" "Max (date ` set example_df) = (2025, 1, 3)"
  by (simp_all add: example_df_def days_in_month_def)

lemma example_days: "days_between (2025, 1, 3) (2025, 1, 1) = 2"
  by (simp add: days_between_def days_before_year_def days_before_month_def)

text \<open>
  The example of the specification: 5000 of income on 2025-01-01, 2000 of expense on
  2025-01-03, a starting balance of 1000, and today = 2025-01-02.  The timeline has 4
  points, and 2025-01-02 has one daily point (beside the leading point of that date).
\<close>

theorem C2_projection_points_witness:
  "example_df \<noteq> []
   \<and> length (calculate_cash_flow_projection example_df 1000 (2025, 1, 2)) = 4
   \<and> length (filter (\<lambda>p. p_date p = (2025, 1, 2))
         (tl (calculate_cash_flow_projection example_df 1000 (2025, 1, 2)))) = 1"
proof -
  have d: "valid_date (2025, 1, 2) \<and> (2025, 1, 1) \<le> ((2025, 1, 2) :: date)
      \<and> ((2025, 1, 2) :: date) \<le> (2025, 1, 3)"
    by (simp add: days_in_month_def)
  from C2_projection_points [where df = example_df and starting_balance = 1000
      and today = "(2025, 1, 2)"] example_df_facts(1,2)
  have "length (calculate_cash_flow_projection example_df 1000 (2025, 1, 2)) =
          nat (days_between (2025, 1, 3) (2025, 1, 1)) + 2"
    and "\<forall>d. valid_date d \<and> (2025, 1, 1) \<le> d \<and> d \<le> (2025, 1, 3) \<longrightarrow>
          length (filter (\<lambda>p. p_date p = d)
            (tl (calculate_cash_flow_projection example_df 1000 (2025, 1, 2)))) = 1"
    unfolding example_df_facts(3,4) by blast+
  with d example_days example_df_facts(1) show ?thesis by simp
qed




section \<open>Claims about the scenario engine\<close>

lemma delay_row_fields:
  "tx_id (delay_row n t) = tx_id t" "tx_type (delay_row n t) = tx_type t"
  "amount (delay_row n t) = amount t" "description (delay_row n t) = description t"
  "status (delay_row n t) = status t" "probability (delay_row n t) = probability t"
  by (simp_all add: delay_row_def)


lemma apply_scenarios_empty: "apply_scenarios [] scenario_type delay_days what_if_expense today = []"
  by (simp add: apply_scenarios_def)

lemma mset_apply_scenarios:
  assumes "df \<noteq> []"
  shows "mset (apply_scenarios df scenario_type delay_days what_if_expense today) =
     mset (if scenario_type = ''Payment Delays'' then map (delay_row delay_days) df else df)
     + (if 0 < what_if_expense then {#new_expense what_if_expense today#} else {#})"
  using assms by (simp add: apply_scenarios_def Let_def)

lemma mset_apply_scenarios_no_expense:
  assumes "\<not> 0 < what_if_expense"
  shows "mset (apply_scenarios df scenario_type delay_days what_if_expense today) =
     mset (if scenario_type = ''Payment Delays'' then map (delay_row delay_days) df else df)"
  using assms by (cases "df = []") (simp_all add: mset_apply_scenarios apply_scenarios_empty)

lemma add_days_between:
  assumes "valid_date dt" "0 \<le> n"
  shows "valid_date (add_days dt n)" "days_between (add_days dt n) dt = n"
  using add_days_nonneg [OF assms(1), of "nat n"] assms(2) by (simp_all add: days_between_def)

text \<open>
  Claim C4, as the code has it.  An empty transaction set is returned unchanged whatever
  the what-if amount is.  With a what-if amount that is not positive (0 in particular) the
  output holds the rows of the scenario and no synthetic transaction.  With a positive
  amount and a transaction set that is not empty the output holds those rows and exactly
  one more: id 9999, type expense, status projected, probability 100, dated 3 days after
  today, described as What-If Expense, with the what-if amount.  The scenario run of the
  application computes its table with this function and leaves the session state and the
  file as they were: the synthetic transaction is not stored.
\<close>

theorem C4_what_if_expense:
  fixes df :: "date transaction list" and scenario_type :: string and delay_days :: int
    and what_if_expense :: rat and today :: date and w :: world
  defines "out \<equiv> apply_scenarios df scenario_type delay_days what_if_expense today"
    and "rows \<equiv> (if scenario_type = ''Payment Delays'' then map (delay_row delay_days) df else df)"
  shows "(df = [] \<longrightarrow> out = [])
    \<and> (\<not> 0 < what_if_expense \<longrightarrow> mset out = mset rows)
    \<and> (df \<noteq> [] \<and> 0 < what_if_expense \<longrightarrow>
          mset out =
            add_mset \<lparr>tx_id = 9999, tx_type = ''expense'', amount = what_if_expense,
                      date = add_days today 3, description = ''What-If Expense'',
                      status = ''projected'', probability = 100\<rparr> (mset rows))
    \<and> (valid_date today \<longrightarrow> days_between (add_days today 3) today = 3)
    \<and> fst (fst (run_scenario scenario_type delay_days what_if_expense today w)) =
          apply_scenarios (transactions_df (session_state w)) scenario_type delay_days
            what_if_expense today
    \<and> snd (run_scenario scenario_type delay_days what_if_expense today w) = w"
proof (intro conjI impI)
  assume "df = []"
  then show "out = []" by (simp add: out_def apply_scenarios_empty)
next
  assume "\<not> 0 < what_if_expense"
  then show "mset out = mset rows"
    unfolding out_def rows_def by (rule mset_apply_scenarios_no_expense)
next
  assume "df \<noteq> [] \<and> 0 < what_if_expense"
  then show "mset out =
            add_mset \<lparr>tx_id = 9999, tx_type = ''expense'', amount = what_if_expense,
                      date = add_days today 3, description = ''What-If Expense'',
                      status = ''projected'', probability = 100\<rparr> (mset rows)"
    unfolding out_def rows_def by (simp add: mset_apply_scenarios new_expense_def)
next
  assume "valid_date today"
  then show "days_between (add_days today 3) today = 3"
    by (simp add: add_days_between)
next
  show "fst (fst (run_scenario scenario_type delay_days what_if_expense today w)) =
          apply_scenarios (transactions_df (session_state w)) scenario_type delay_days
            what_if_expense today"
    by (simp add: run_scenario_def Let_def)
next
  show "snd (run_scenario scenario_type delay_days what_if_expense today w) = w"
    by (simp add: run_scenario_def Let_def)
qed

text \<open>
  Claim C4 as the specification states it fails on the empty transaction set: with a
  what-if amount of 500 the output is empty, so no synthetic transaction was appended.
\<close>

theorem C4_counterexample:
  "(0::rat) < 500 \<and> apply_scenarios [] ''Base Case'' 0 500 (2025, 1, 2) = []"
  by (simp add: apply_scenarios_def)

lemma next_day_numeral:
  "(next_day ^^ numeral k) dt = next_day ((next_day ^^ pred_numeral k) dt)"
  by (simp add: numeral_eq_Suc)

lemma example_today_plus_3: "add_days (2025, 1, 2) 3 = (2025, 1, 5)"
  by (simp add: add_days_def next_day_numeral days_in_month_def)

text \<open>
  On the example table, with today = 2025-01-02 and a what-if amount of 500, the output is
  the two rows and the synthetic expense dated 2025-01-05.
\<close>

theorem C4_what_if_expense_witness:
  "example_df \<noteq> [] \<and> (0::rat) < 500
   \<and> mset (apply_scenarios example_df ''Base Case'' 0 500 (2025, 1, 2)) =
       add_mset \<lparr>tx_id = 9999, tx_type = ''expense'', amount = 500,
                 date = (2025, 1, 5), description = ''What-If Expense'',
                 status = ''projected'', probability = 100\<rparr> (mset example_df)"
proof -
  have ne: "example_df \<noteq> []" by (simp add: example_df_def)
  with C4_what_if_expense [where df = example_df and scenario_type = "''Base Case''"
      and delay_days = 0 and what_if_expense = 500 and today = "(2025, 1, 2)"]
  have "mset (apply_scenarios example_df ''Base Case'' 0 500 (2025, 1, 2)) =
       add_mset \<lparr>tx_id = 9999, tx_type = ''expense'', amount = 500,
                 date = add_days (2025, 1, 2) 3, description = ''What-If Expense'',
                 status = ''projected'', probability = 100\<rparr> (mset example_df)"
    by simp
  with ne show ?thesis unfolding example_today_plus_3 by simp
qed




lemma two_rows_same_id:
  assumes "mset out = add_mset x (mset rows)" "r \<in> set rows" "f r = k" "f x = k"
  shows "2 \<le> length (filter (\<lambda>t. f t = k) out)"
proof -
  have "length (filter (\<lambda>t. f t = k) out) = size (filter_mset (\<lambda>t. f t = k) (mset out))"
    by (simp only: mset_filter [symmetric] size_mset)
  also have "\<dots> = Suc (size (filter_mset (\<lambda>t. f t = k) (mset rows)))"
    using assms(1,4) by simp
  finally have a: "length (filter (\<lambda>t. f t = k) out) =
      Suc (size (filter_mset (\<lambda>t. f t = k) (mset rows)))" .
  from assms(2,3) have "r \<in># filter_mset (\<lambda>t. f t = k) (mset rows)" by simp
  then have "filter_mset (\<lambda>t. f t = k) (mset rows) \<noteq> {#}" by auto
  then have "0 < size (filter_mset (\<lambda>t. f t = k) (mset rows))"
    by (simp only: nonempty_has_size)
  with a show ?thesis by simp
qed

lemma repeated_not_distinct:
  assumes "2 \<le> length (filter (\<lambda>t. f t = k) out)"
  shows "\<not> distinct (map f out)"
proof
  assume "distinct (map f out)"
  then have "length (filter (\<lambda>x. x = k) (map f out)) = card ({x. x = k} \<inter> set (map f out))"
    by (rule distinct_length_filter)
  also have "\<dots> \<le> card {k}" by (intro card_mono) auto
  finally have "length (filter (\<lambda>x. x = k) (map f out)) \<le> 1" by simp
  moreover have "length (filter (\<lambda>x. x = k) (map f out)) = length (filter (\<lambda>t. f t = k) out)"
    by (simp add: comp_def)
  ultimately show False using assms by simp
qed

text \<open>
  Claim C10.  Whenever the what-if amount is positive (and the table is not empty, so
  that a synthetic transaction is added at all), the synthetic transaction of the output
  has id 9999; if a transaction of the input already has id 9999, the output holds two
  transactions with id 9999 and its ids are not distinct.
\<close>

theorem C10_what_if_id_collision:
  fixes df :: "date transaction list" and scenario_type :: string and delay_days :: int
    and what_if_expense :: rat and today :: date
  defines "out \<equiv> apply_scenarios df scenario_type delay_days what_if_expense today"
  assumes "df \<noteq> []" and "0 < what_if_expense"
  shows "(\<exists>t \<in> set out. tx_id t = 9999 \<and> tx_type t = ''expense''
            \<and> amount t = what_if_expense \<and> date t = add_days today 3
            \<and> description t = ''What-If Expense'' \<and> status t = ''projected''
            \<and> probability t = 100)
    \<and> ((\<exists>t \<in> set df. tx_id t = 9999) \<longrightarrow>
          2 \<le> length (filter (\<lambda>t. tx_id t = 9999) out) \<and> \<not> distinct (map tx_id out))"
proof -
  define rows where
    "rows = (if scenario_type = ''Payment Delays'' then map (delay_row delay_days) df else df)"
  have m: "mset out = add_mset (new_expense what_if_expense today) (mset rows)"
    using assms(2,3) by (simp add: out_def rows_def mset_apply_scenarios)
  then have "new_expense what_if_expense today \<in># mset out" by simp
  then have "new_expense what_if_expense today \<in> set out" by simp
  then have first: "\<exists>t \<in> set out. tx_id t = 9999 \<and> tx_type t = ''expense''
            \<and> amount t = what_if_expense \<and> date t = add_days today 3
            \<and> description t = ''What-If Expense'' \<and> status t = ''projected''
            \<and> probability t = 100"
    by (intro bexI [of _ "new_expense what_if_expense today"]) (simp_all add: new_expense_def)
  have second: "2 \<le> length (filter (\<lambda>t. tx_id t = 9999) out) \<and> \<not> distinct (map tx_id out)"
    if "\<exists>t \<in> set df. tx_id t = 9999"
  proof -
    from that obtain t where t: "t \<in> set df" "tx_id t = 9999" by blast
    define r where "r = (if scenario_type = ''Payment Delays'' then delay_row delay_days t else t)"
    have r: "r \<in> set rows" "tx_id r = 9999"
      using t by (simp_all add: r_def rows_def delay_row_fields)
    have "tx_id (new_expense what_if_expense today) = 9999" by (simp add: new_expense_def)
    from two_rows_same_id [OF m r this]
    have "2 \<le> length (filter (\<lambda>t. tx_id t = 9999) out)" .
    with repeated_not_distinct [OF this] show ?thesis by simp
  qed
  from first second show ?thesis by blast
qed

text \<open>A table whose only row has id 9999, with a what-if amount of 500.\<close>

theorem C10_what_if_id_collision_witness:
  "example_9999_df \<noteq> [] \<and> (0::rat) < 500
   \<and> 2 \<le> length (filter (\<lambda>t. tx_id t = 9999)
           (apply_scenarios example_9999_df ''Base Case'' 0 500 (2025, 1, 2)))
   \<and> \<not> distinct (map tx_id (apply_scenarios example_9999_df ''Base Case'' 0 500 (2025, 1, 2)))"
proof -
  have ne: "example_9999_df \<noteq> []" and pos: "(0::rat) < 500"
    and ex: "\<exists>t \<in> set example_9999_df. tx_id t = 9999"
    by (simp_all add: example_9999_df_def)
  from C10_what_if_id_collision [OF ne pos, of "''Base Case''" 0 "(2025, 1, 2)"] ex ne pos
  show ?thesis by blast
qed

section \<open>Claims about the store and its file\<close>

lemma tx_of_json_to_json:
  assumes "py_date (date t)"
  shows "tx_of_json (tx_to_json t) = Some t"
  using strptime_isoformat [OF assms] by simp

lemma convert_dates_to_json:
  assumes "\<forall>t \<in> set txs. py_date (date t)"
  shows "convert_dates (map tx_to_json txs) = Some txs"
  using assms
proof (induction txs)
  case Nil
  then show ?case by simp
next
  case (Cons t txs)
  then have "tx_of_json (tx_to_json t) = Some t" "convert_dates (map tx_to_json txs) = Some txs"
    by (simp_all add: tx_of_json_to_json del: tx_of_json.simps tx_to_json.simps)
  then show ?case by (simp del: tx_of_json.simps tx_to_json.simps)
qed

text \<open>
  Claim C8.  When every date of the table is a date Python can hold, saving the store and
  loading the file that was written gives back the same transactions, the same balance
  and the same next-id counter.
\<close>

theorem C8_save_load_round_trip:
  assumes "\<forall>t \<in> set (transactions_df (session_state w)). py_date (date t)"
  shows "load_data (cashflow_file (save_data w)) = session_state w"
  using convert_dates_to_json [OF assms] by (simp add: load_data_def save_data_def)

lemma example_isoformat:
  "isoformat (2025, 1, 1) = ''2025-01-01''" "isoformat (2025, 1, 3) = ''2025-01-03''"
  by (simp_all add: zero_pad_def digits.simps digit_char_def char_of_eq_iff)

lemma example_saved_dates:
  "map date (j_transactions (the (cashflow_file (save_data example_world)))) =
     [''2025-01-01'', ''2025-01-03'']"
  unfolding example_isoformat [symmetric]
  by (simp add: save_data_def example_world_def example_df_def del: isoformat.simps)

text \<open>
  The example store: its two dates are written as 2025-01-01 and 2025-01-03 and read back.
\<close>

theorem C8_save_load_round_trip_witness:
  "load_data (cashflow_file (save_data example_world)) =
     \<lparr>transactions_df = example_df, current_balance = 1000, next_id = 3\<rparr>"
proof -
  have "\<forall>t \<in> set (transactions_df (session_state example_world)). py_date (date t)"
    by (simp add: example_world_def example_df_def py_date_def days_in_month_def)
  from C8_save_load_round_trip [OF this] show ?thesis by (simp add: example_world_def)
qed






section \<open>Claims about the ingestion of a batch\<close>




text \<open>A row that cannot be converted stops the merge: nothing is written.\<close>

lemma append_batch_incomplete:
  assumes "\<exists>r \<in> set rs. r_type r = None \<or> r_amount r = None \<or> r_date r = None
             \<or> r_description r = None"
  shows "append_batch rs txs nid = None"
  using assms
proof (induction rs arbitrary: txs nid)
  case Nil
  then show ?case by simp
next
  case (Cons r rs)
  then show ?case by (auto split: option.splits)
qed

lemma save_to_cashflow_data_no_partial_merge:
  assumes "r_transactions transactions = Some rs"
    and "\<exists>r \<in> set rs. r_type r = None \<or> r_amount r = None \<or> r_date r = None
             \<or> r_description r = None"
  shows "save_to_cashflow_data transactions cashflow = (False, cashflow)"
  using assms(1) append_batch_incomplete [OF assms(2)]
  by (simp add: save_to_cashflow_data_def Let_def)

end
